theory Spec2Isabelle
  imports Complex_Main
begin

section \<open>Values and exceptions\<close>

text \<open>
  The notebook computes with Python and numpy floats. They are modelled by the real
  numbers: every statement below is about exact arithmetic, rounding and the special
  values (infinities, not-a-number) are not part of the model. Array indices and tick
  counters are natural numbers, an index expression that can be negative is an integer.

  An exception is a value: a computation that can raise returns \<open>error + 'a\<close>, with
  \<open>Inl\<close> carrying the exception.
\<close>

datatype error = IndexError | ValueError | ZeroDivisionError

definition bind_err :: "error + 'a \<Rightarrow> ('a \<Rightarrow> error + 'b) \<Rightarrow> error + 'b" where
  "bind_err m f = (case m of Inl e \<Rightarrow> Inl e | Inr x \<Rightarrow> f x)"

text \<open>Python's \<^verbatim>\<open>x / y\<close> on floats raises on a zero divisor.\<close>

definition py_div :: "real \<Rightarrow> real \<Rightarrow> error + real" where
  "py_div x y = (if y = 0 then Inl ZeroDivisionError else Inr (x / y))"

section \<open>The PID controller\<close>

text \<open>
  \<^verbatim>\<open>
  Kc   = 6.0
  tauI = 75.0 # sec
  tauD = 0.0  # sec

  def pid(sp,pv,pv_last,ierr,dt):
      KP = Kc
      KI = Kc / tauI
      KD = Kc * tauD
      op0 = 0
      ophi = 100
      oplo = 0
      error = sp - pv
      ierr = ierr + KI * error * dt
      if dt>=1e-8:
          dpv = (pv - pv_last) / dt
      else:
          dpv = 0.0;
      P = KP * error
      I = ierr
      D = -KD * dpv
      op = op0 + P + I + D
      if op < oplo or op > ophi:
          I = I - KI * error * dt
          op = max(oplo,min(ophi,op))
      return [op,P,I,D]
  \<close>
  The function reads the three tuning parameters from module globals. \<open>pid_body\<close> is
  the body with the globals as its first three arguments; \<open>pid\<close> is the function of
  the notebook, at the values the notebook assigns.
\<close>

definition Kc :: real where "Kc = 6"
definition tauI :: real where "tauI = 75"
definition tauD :: real where "tauD = 0"

definition pid_body ::
  "real \<Rightarrow> real \<Rightarrow> real \<Rightarrow> real \<Rightarrow> real \<Rightarrow> real \<Rightarrow> real \<Rightarrow> real \<Rightarrow> error + real \<times> real \<times> real \<times> real" where
  "pid_body kc ti td sp pv pv_last ierr dt =
     (let KP = kc in
      bind_err (py_div kc ti) (\<lambda>KI.
        let KD = kc * td;
            op0 = 0;
            ophi = 100;
            oplo = 0;
            err = sp - pv;
            ierr1 = ierr + KI * err * dt
        in bind_err (if dt \<ge> 1 / 10 ^ 8 then py_div (pv - pv_last) dt else Inr 0) (\<lambda>dpv.
          let P = KP * err;
              I = ierr1;
              D = - KD * dpv;
              op = op0 + P + I + D
          in if op < oplo \<or> op > ophi
             then Inr (max oplo (min ophi op), P, I - KI * err * dt, D)
             else Inr (op, P, I, D))))"

definition pid :: "real \<Rightarrow> real \<Rightarrow> real \<Rightarrow> real \<Rightarrow> real \<Rightarrow> error + real \<times> real \<times> real \<times> real" where
  "pid = pid_body Kc tauI tauD"

text \<open>The value the body assigns to \<^verbatim>\<open>dpv\<close>, named for the statements below.\<close>

definition dpv_of :: "real \<Rightarrow> real \<Rightarrow> real \<Rightarrow> real" where
  "dpv_of pv pv_last h = (if h \<ge> 1 / 10 ^ 8 then (pv - pv_last) / h else 0)"

section \<open>Arrays\<close>

text \<open>
  A one-dimensional numpy array is a list. Indexing with an integer follows Python: a
  negative index counts from the end, an index outside the array raises. A slice never
  raises: its bounds are clipped to the array, and a negative bound counts from the end.
\<close>

definition py_index :: "nat \<Rightarrow> int \<Rightarrow> error + nat" where
  "py_index n i =
     (let j = (if i < 0 then int n + i else i)
      in if 0 \<le> j \<and> j < int n then Inr (nat j) else Inl IndexError)"

definition py_get :: "real list \<Rightarrow> int \<Rightarrow> error + real" where
  "py_get xs i = bind_err (py_index (length xs) i) (\<lambda>j. Inr (xs ! j))"

definition py_set :: "real list \<Rightarrow> int \<Rightarrow> real \<Rightarrow> error + real list" where
  "py_set xs i v = bind_err (py_index (length xs) i) (\<lambda>j. Inr (xs[j := v]))"

definition slice_bound :: "nat \<Rightarrow> int \<Rightarrow> nat" where
  "slice_bound n k = (if k < 0 then nat (max 0 (int n + k)) else min (nat k) n)"

definition py_slice :: "'a list \<Rightarrow> int \<Rightarrow> int \<Rightarrow> 'a list" where
  "py_slice xs a b =
     (let lo = slice_bound (length xs) a; hi = slice_bound (length xs) b
      in take (hi - lo) (drop lo xs))"

text \<open>
  \<^verbatim>\<open>xs[a:b] = v\<close> with a scalar \<open>v\<close>: every position of the slice receives \<open>v\<close>, the
  length of the array does not change. An omitted upper bound is the length of the array.
\<close>

definition np_fill :: "real list \<Rightarrow> int \<Rightarrow> int \<Rightarrow> real \<Rightarrow> real list" where
  "np_fill xs a b v =
     (let lo = slice_bound (length xs) a; hi = slice_bound (length xs) b
      in take lo xs @ replicate (hi - lo) v @ drop (max lo hi) xs)"

definition np_zeros :: "nat \<Rightarrow> real list" where
  "np_zeros n = replicate n 0"

definition np_ones :: "nat \<Rightarrow> real list" where
  "np_ones n = replicate n 1"

text \<open>
  \<^verbatim>\<open>a - b\<close> on two arrays is elementwise; an array of one element is broadcast against
  the other, any other pair of different lengths raises. \<^verbatim>\<open>np.vstack((a,b)).T\<close> is the
  list of rows \<open>(a[j], b[j])\<close> and needs equal lengths. \<^verbatim>\<open>np.clip(x,lo,hi)\<close> is
  \<open>min (max x lo) hi\<close>.
\<close>

definition np_sub :: "real list \<Rightarrow> real list \<Rightarrow> error + real list" where
  "np_sub a b =
     (if length a = length b then Inr (map (\<lambda>(x, y). x - y) (zip a b))
      else if length b = 1 then Inr (map (\<lambda>x. x - b ! 0) a)
      else if length a = 1 then Inr (map (\<lambda>y. a ! 0 - y) b)
      else Inl ValueError)"

definition np_vstack_T :: "real list \<Rightarrow> real list \<Rightarrow> error + (real \<times> real) list" where
  "np_vstack_T a b = (if length a = length b then Inr (zip a b) else Inl ValueError)"

definition np_clip :: "real \<Rightarrow> real \<Rightarrow> real \<Rightarrow> real" where
  "np_clip x lo hi = min (max x lo) hi"

section \<open>The scalers\<close>

text \<open>
  \<^verbatim>\<open>s_x\<close> and \<^verbatim>\<open>s_y\<close> are scikit-learn \<^verbatim>\<open>MinMaxScaler\<close>s, fitted once on the training
  data and only read afterwards. A fitted scaler holds, for each feature, the two numbers
  \<^verbatim>\<open>scale_\<close> and \<^verbatim>\<open>min_\<close>; \<^verbatim>\<open>transform\<close> maps \<open>x\<close> to \<open>x * scale_ + min_\<close> and
  \<^verbatim>\<open>inverse_transform\<close> maps \<open>y\<close> to \<open>(y - min_) / scale_\<close>. The fitted parameters are
  taken as given: \<^verbatim>\<open>s_x\<close> has two features (set point and error), \<^verbatim>\<open>s_y\<close> has one.
\<close>

record minmax =
  sc_scale :: real
  sc_min :: real

definition transform :: "minmax \<Rightarrow> real \<Rightarrow> real" where
  "transform m x = x * sc_scale m + sc_min m"

definition inverse_transform :: "minmax \<Rightarrow> real \<Rightarrow> real" where
  "inverse_transform m y = (y - sc_min m) / sc_scale m"

definition transform_rows :: "minmax \<times> minmax \<Rightarrow> (real \<times> real) list \<Rightarrow> (real \<times> real) list" where
  "transform_rows s X = map (\<lambda>(a, b). (transform (fst s) a, transform (snd s) b)) X"

section \<open>The sequence-model controller\<close>

text \<open>
  \<^verbatim>\<open>
  def lstm(T1_m, Tsp_m):
      err = Tsp_m - T1_m
      X = np.vstack((Tsp_m,err)).T
      Xs = s_x.transform(X)
      Xs = np.reshape(Xs, (1, Xs.shape[0], Xs.shape[1]))
      Q1c_s = model.predict(Xs)
      Q1c = s_y.inverse_transform(Q1c_s)[0][0]
      Q1c = np.clip(Q1c,0.0,100.0)
      return Q1c
  \<close>
  The trained network is outside the notebook's own code: \<open>predict\<close> is any function
  from the scaled window (its rows in order) to a number. \<open>lstm_input\<close> is the part of
  the function up to the call of the network, that is, the window the network receives.
  The function tests nothing about the length of its arguments.
\<close>

definition lstm_input :: "minmax \<times> minmax \<Rightarrow> real list \<Rightarrow> real list \<Rightarrow> error + (real \<times> real) list" where
  "lstm_input s_x T1_m Tsp_m =
     bind_err (np_sub Tsp_m T1_m) (\<lambda>err.
     bind_err (np_vstack_T Tsp_m err) (\<lambda>X.
     Inr (transform_rows s_x X)))"

definition lstm ::
  "((real \<times> real) list \<Rightarrow> real) \<Rightarrow> minmax \<times> minmax \<Rightarrow> minmax \<Rightarrow> real list \<Rightarrow> real list \<Rightarrow> error + real" where
  "lstm predict s_x s_y T1_m Tsp_m =
     bind_err (lstm_input s_x T1_m Tsp_m) (\<lambda>Xs.
       let Q1c_s = predict Xs;
           Q1c = inverse_transform s_y Q1c_s
       in Inr (np_clip Q1c 0 100))"

definition window :: nat where
  "window = 15"

section \<open>The training windows\<close>






section \<open>The set point schedules\<close>

text \<open>
  \<^verbatim>\<open>random.randint(a,b)\<close> returns an integer between \<open>a\<close> and \<open>b\<close>, both included.
  The generator is a sequence \<open>rng\<close> of arbitrary numbers, read at a position that
  advances with every draw; a draw is reduced into the requested range.
\<close>

definition randint :: "nat \<Rightarrow> nat \<Rightarrow> nat \<Rightarrow> nat" where
  "randint a b r = a + r mod (b - a + 1)"

text \<open>
  \<^verbatim>\<open>
  while end <= loops:
      start = end
      end += random.randint(240,600)
      Tsp1[start:end] = random.randint(30,70)
  \<close>
  The loop of both schedule cells. It returns the array and the final value of
  \<^verbatim>\<open>end\<close>; \<open>k\<close> is the position in the sequence of draws.
\<close>

function sp_loop :: "(nat \<Rightarrow> nat) \<Rightarrow> nat \<Rightarrow> nat \<Rightarrow> nat \<Rightarrow> real list \<Rightarrow> real list \<times> nat" where
  "sp_loop rng k loops end_idx tsp =
     (if end_idx \<le> loops then
        let start = end_idx;
            end1 = end_idx + randint 240 600 (rng k);
            tsp1 = np_fill tsp (int start) (int end1) (real (randint 30 70 (rng (k + 1))))
        in sp_loop rng (k + 2) loops end1 tsp1
      else (tsp, end_idx))"
  by pat_completeness auto
termination
  by (relation "measure (\<lambda>(rng, k, loops, end_idx, tsp). loops + 1 - end_idx)")
     (auto simp: randint_def)

declare sp_loop.simps [simp del]

text \<open>
  The training cell: \<^verbatim>\<open>Tsp1 = np.ones(loops) * lab.T1\<close>, \<^verbatim>\<open>end = 30\<close>, the loop.
  \<open>room\<close> is the temperature read from the device.
\<close>

definition Tsp1_schedule :: "(nat \<Rightarrow> nat) \<Rightarrow> real \<Rightarrow> nat \<Rightarrow> real list \<times> nat" where
  "Tsp1_schedule rng room loops =
     sp_loop rng 0 loops 30 (map (\<lambda>x. x * room) (np_ones loops))"

text \<open>
  The test cell: \<^verbatim>\<open>Tsp = np.ones(loops) * lab.T1\<close>, \<^verbatim>\<open>end = window + 15\<close>, the loop, and
  then \<^verbatim>\<open>Tsp[-120:] = Tsp[0]\<close>, which reads the first element of the array.
\<close>

definition Tsp_schedule :: "(nat \<Rightarrow> nat) \<Rightarrow> nat \<Rightarrow> real \<Rightarrow> nat \<Rightarrow> error + real list \<times> nat" where
  "Tsp_schedule rng W room loops =
     (let (tsp, end_idx) = sp_loop rng 0 loops (W + 15) (map (\<lambda>x. x * room) (np_ones loops))
      in bind_err (py_get tsp 0) (\<lambda>v.
           Inr (np_fill tsp (- 120) (int (length tsp)) v, end_idx)))"

section \<open>The notebook's state and the control loops\<close>

text \<open>
  The cells of the notebook run at top level, so every variable they assign is a global.
  The record holds the globals the control loops read or write. Two fields are not
  variables of the notebook: \<open>lab\<close> is the state of the device behind the \<^verbatim>\<open>lab\<close>
  object, and \<open>trace\<close> is a log, kept for the statements below, of what the loop hands
  to the controllers and to the device, in the order in which it happens.
\<close>

datatype event =
  PidCall real real real real real
| HeaterWrite real
| ModelCall "(real \<times> real) list"

record 'p notebook =
  tm :: "real list"
  T1 :: "real list"
  Q1 :: "real list"
  Qpid :: "real list"
  Qlstm :: "real list"
  Tsp1 :: "real list"
  Tsp :: "real list"
  ierr :: real
  iae :: real
  prev_time :: real
  dt :: real
  T1_m :: "real list"
  Tsp_m :: "real list"
  lab :: 'p
  trace :: "event list"

text \<open>
  The device is any deterministic process: \<open>lab_T1 t p\<close> is the temperature read at
  tick time \<open>t\<close> in device state \<open>p\<close>, and \<open>lab_Q1 t q p\<close> is the device state after
  the heater has been set to \<open>q\<close>. The sequence of tick times that \<^verbatim>\<open>tclab.clock\<close>
  yields is an argument of each loop. Opening and closing the connection (the \<^verbatim>\<open>with\<close>
  block, which switches the heater off when it is left) and the printed lines are not
  modelled.
\<close>

record 'p device =
  lab_T1 :: "real \<Rightarrow> 'p \<Rightarrow> real"
  lab_Q1 :: "real \<Rightarrow> real \<Rightarrow> 'p \<Rightarrow> 'p"

text \<open>
  A statement maps a state to the state it leaves and the exception it raised, if any.
  A block runs its statements in order and stops at the first exception; so does a
  \<^verbatim>\<open>for\<close> loop with its iterations.
\<close>

type_synonym 's stmt = "'s \<Rightarrow> 's \<times> error option"

fun exec :: "'s stmt list \<Rightarrow> 's stmt" where
  "exec [] s = (s, None)"
| "exec (c # cs) s = (case c s of (s1, None) \<Rightarrow> exec cs s1 | (s1, Some e) \<Rightarrow> (s1, Some e))"

fun for_loop :: "('a \<Rightarrow> 's stmt) \<Rightarrow> 'a list \<Rightarrow> 's stmt" where
  "for_loop body [] s = (s, None)"
| "for_loop body (x # xs) s =
     (case body x s of (s1, None) \<Rightarrow> for_loop body xs s1 | (s1, Some e) \<Rightarrow> (s1, Some e))"

definition assign :: "('s \<Rightarrow> error + 's) \<Rightarrow> 's stmt" where
  "assign f s = (case f s of Inl e \<Rightarrow> (s, Some e) | Inr s1 \<Rightarrow> (s1, None))"

definition log_event :: "event \<Rightarrow> 'p notebook \<Rightarrow> 'p notebook" where
  "log_event ev s = s\<lparr>trace := trace s @ [ev]\<rparr>"

subsection \<open>Statements shared by the loops\<close>

text \<open>\<^verbatim>\<open>tm[i] = t\<close>\<close>

definition set_tm :: "nat \<Rightarrow> real \<Rightarrow> 'p notebook stmt" where
  "set_tm i t = assign (\<lambda>s. bind_err (py_set (tm s) (int i) t) (\<lambda>a. Inr (s\<lparr>tm := a\<rparr>)))"

text \<open>\<^verbatim>\<open>dt = t - prev_time\<close>\<close>

definition set_dt :: "real \<Rightarrow> 'p notebook stmt" where
  "set_dt t = assign (\<lambda>s. Inr (s\<lparr>dt := t - prev_time s\<rparr>))"

text \<open>\<^verbatim>\<open>T1[i] = lab.T1\<close>\<close>

definition read_T1 :: "'p device \<Rightarrow> nat \<Rightarrow> real \<Rightarrow> 'p notebook stmt" where
  "read_T1 dev i t =
     assign (\<lambda>s. bind_err (py_set (T1 s) (int i) (lab_T1 dev t (lab s))) (\<lambda>a. Inr (s\<lparr>T1 := a\<rparr>)))"

text \<open>\<^verbatim>\<open>iae += np.abs(sp[i]-T1[i])\<close>, with the set point array of the cell\<close>

definition add_iae :: "('p notebook \<Rightarrow> real list) \<Rightarrow> nat \<Rightarrow> 'p notebook stmt" where
  "add_iae sp i =
     assign (\<lambda>s. bind_err (py_get (sp s) (int i)) (\<lambda>a.
                 bind_err (py_get (T1 s) (int i)) (\<lambda>b.
                 Inr (s\<lparr>iae := iae s + \<bar>a - b\<bar>\<rparr>))))"

text \<open>
  \<^verbatim>\<open>[Q[i],P,ierr,D] = pid(sp[i],T1[i],T1[i-1],ierr,dt)\<close>, with the set point array
  \<open>sp\<close> and the output array \<open>Q\<close> of the cell (\<open>putQ\<close> stores into it). The arguments
  are evaluated first, then the controller runs, then the targets are assigned from left
  to right. \<^verbatim>\<open>T1[i-1]\<close> is indexed with the integer \<open>i - 1\<close>.
\<close>

definition call_pid ::
  "('p notebook \<Rightarrow> real list) \<Rightarrow> ('p notebook \<Rightarrow> real list) \<Rightarrow>
   (real list \<Rightarrow> 'p notebook \<Rightarrow> 'p notebook) \<Rightarrow> nat \<Rightarrow> 'p notebook stmt" where
  "call_pid sp Q putQ i s =
     (case py_get (sp s) (int i) of Inl e \<Rightarrow> (s, Some e) | Inr a \<Rightarrow>
     (case py_get (T1 s) (int i) of Inl e \<Rightarrow> (s, Some e) | Inr b \<Rightarrow>
     (case py_get (T1 s) (int i - 1) of Inl e \<Rightarrow> (s, Some e) | Inr c \<Rightarrow>
     (let s1 = log_event (PidCall a b c (ierr s) (dt s)) s in
     (case pid a b c (ierr s) (dt s) of Inl e \<Rightarrow> (s1, Some e) | Inr (op, P, I, D) \<Rightarrow>
     (case py_set (Q s1) (int i) op of Inl e \<Rightarrow> (s1, Some e) | Inr q \<Rightarrow>
        ((putQ q s1)\<lparr>ierr := I\<rparr>, None)))))))"

text \<open>\<^verbatim>\<open>lab.Q1(Q[i])\<close>, with the output array of the cell\<close>

definition write_Q1 :: "'p device \<Rightarrow> ('p notebook \<Rightarrow> real list) \<Rightarrow> nat \<Rightarrow> real \<Rightarrow> 'p notebook stmt" where
  "write_Q1 dev Q i t =
     assign (\<lambda>s. bind_err (py_get (Q s) (int i)) (\<lambda>q.
                 Inr (log_event (HeaterWrite q) (s\<lparr>lab := lab_Q1 dev t q (lab s)\<rparr>))))"

text \<open>
  \<^verbatim>\<open>
  if i >= window:
      T1_m = T1[i-window:i]
      Tsp_m = Tsp[i-window:i]
      Qlstm[i] = lstm(T1_m,Tsp_m)
  \<close>
  The network is called inside \<^verbatim>\<open>lstm\<close>, before the result is stored.
\<close>

definition set_T1_m :: "nat \<Rightarrow> nat \<Rightarrow> 'p notebook stmt" where
  "set_T1_m W i = assign (\<lambda>s. Inr (s\<lparr>T1_m := py_slice (T1 s) (int i - int W) (int i)\<rparr>))"

definition set_Tsp_m :: "nat \<Rightarrow> nat \<Rightarrow> 'p notebook stmt" where
  "set_Tsp_m W i = assign (\<lambda>s. Inr (s\<lparr>Tsp_m := py_slice (Tsp s) (int i - int W) (int i)\<rparr>))"

definition call_lstm ::
  "((real \<times> real) list \<Rightarrow> real) \<Rightarrow> minmax \<times> minmax \<Rightarrow> minmax \<Rightarrow> nat \<Rightarrow> 'p notebook stmt" where
  "call_lstm predict s_x s_y i s =
     (case lstm_input s_x (T1_m s) (Tsp_m s) of Inl e \<Rightarrow> (s, Some e) | Inr Xs \<Rightarrow>
     (let s1 = log_event (ModelCall Xs) s in
     (case lstm predict s_x s_y (T1_m s) (Tsp_m s) of Inl e \<Rightarrow> (s1, Some e) | Inr q \<Rightarrow>
     (case py_set (Qlstm s1) (int i) q of Inl e \<Rightarrow> (s1, Some e) | Inr a \<Rightarrow>
        (s1\<lparr>Qlstm := a\<rparr>, None)))))"

definition lstm_block ::
  "((real \<times> real) list \<Rightarrow> real) \<Rightarrow> minmax \<times> minmax \<Rightarrow> minmax \<Rightarrow> nat \<Rightarrow> nat \<Rightarrow> 'p notebook stmt list" where
  "lstm_block predict s_x s_y W i =
     (if i \<ge> W then [set_T1_m W i, set_Tsp_m W i, call_lstm predict s_x s_y i] else [])"

text \<open>\<^verbatim>\<open>prev_time = t\<close>\<close>

definition set_prev_time :: "real \<Rightarrow> 'p notebook stmt" where
  "set_prev_time t = assign (\<lambda>s. Inr (s\<lparr>prev_time := t\<rparr>))"

text \<open>\<^verbatim>\<open>enumerate\<close> pairs each tick time with its index.\<close>

definition enumerate_from :: "nat \<Rightarrow> 'a list \<Rightarrow> (nat \<times> 'a) list" where
  "enumerate_from n xs = zip [n..<n + length xs] xs"

subsection \<open>Data collection\<close>

text \<open>
  \<^verbatim>\<open>
  ierr = 0.0
  iae = 0.0
  prev_time = 0
  for i,t in enumerate(tclab.clock(loops-1)):
      tm[i] = t
      dt = t - prev_time
      T1[i] = lab.T1
      iae += np.abs(Tsp1[i]-T1[i])
      [Q1[i],P,ierr,D] = pid(Tsp1[i],T1[i],T1[i-1],ierr,dt)
      lab.Q1(Q1[i])
      prev_time = t
  \<close>
  (The line printed every hundredth tick is left out.)
\<close>

definition collect_tick :: "'p device \<Rightarrow> nat \<times> real \<Rightarrow> 'p notebook stmt" where
  "collect_tick dev = (\<lambda>(i, t).
     exec [set_tm i t, set_dt t, read_T1 dev i t, add_iae Tsp1 i,
           call_pid Tsp1 Q1 (\<lambda>q s. s\<lparr>Q1 := q\<rparr>) i, write_Q1 dev Q1 i t, set_prev_time t])"

definition collect_run :: "'p device \<Rightarrow> real list \<Rightarrow> 'p notebook stmt" where
  "collect_run dev ticks s =
     for_loop (collect_tick dev) (enumerate_from 0 ticks) (s\<lparr>ierr := 0, iae := 0, prev_time := 0\<rparr>)"

subsection \<open>Part A: the PID controller drives, the network is recorded\<close>

text \<open>
  \<^verbatim>\<open>
  ierr = 0.0
  iae = 0.0
  prev_time = 0
  for i,t in enumerate(tclab.clock(loops)):
      tm[i] = t
      dt = t - prev_time
      T1[i] = lab.T1
      iae += np.abs(Tsp[i]-T1[i])
      [Qpid[i],P,ierr,D] = pid(Tsp[i],T1[i],T1[i-1],ierr,dt)
      lab.Q1(Qpid[i])
      if i >= window:
          T1_m = T1[i-window:i]
          Tsp_m = Tsp[i-window:i]
          Qlstm[i] = lstm(T1_m,Tsp_m)
      prev_time = t
  \<close>
\<close>

definition partA_tick ::
  "'p device \<Rightarrow> ((real \<times> real) list \<Rightarrow> real) \<Rightarrow> minmax \<times> minmax \<Rightarrow> minmax \<Rightarrow> nat \<Rightarrow>
   nat \<times> real \<Rightarrow> 'p notebook stmt" where
  "partA_tick dev predict s_x s_y W = (\<lambda>(i, t).
     exec ([set_tm i t, set_dt t, read_T1 dev i t, add_iae Tsp i,
            call_pid Tsp Qpid (\<lambda>q s. s\<lparr>Qpid := q\<rparr>) i, write_Q1 dev Qpid i t]
           @ lstm_block predict s_x s_y W i
           @ [set_prev_time t]))"

definition partA_run ::
  "'p device \<Rightarrow> ((real \<times> real) list \<Rightarrow> real) \<Rightarrow> minmax \<times> minmax \<Rightarrow> minmax \<Rightarrow> nat \<Rightarrow>
   real list \<Rightarrow> 'p notebook stmt" where
  "partA_run dev predict s_x s_y W ticks s =
     for_loop (partA_tick dev predict s_x s_y W) (enumerate_from 0 ticks)
       (s\<lparr>ierr := 0, iae := 0, prev_time := 0\<rparr>)"

subsection \<open>Part B: the network drives\<close>

text \<open>
  \<^verbatim>\<open>
  prev_time = 0
  for i,t in enumerate(tclab.clock(loops)):
      tm[i] = t
      dt = t - prev_time
      T1[i] = lab.T1
      if i >= window:
          T1_m = T1[i-window:i]
          Tsp_m = Tsp[i-window:i]
          Qlstm[i] = lstm(T1_m,Tsp_m)
      lab.Q1(Qlstm[i])
      prev_time = t
  \<close>
  The cell does not create its arrays: it uses \<^verbatim>\<open>tm\<close>, \<^verbatim>\<open>T1\<close>, \<^verbatim>\<open>Tsp\<close> and \<^verbatim>\<open>Qlstm\<close> as
  the cells before it left them.
\<close>

definition partB_tick ::
  "'p device \<Rightarrow> ((real \<times> real) list \<Rightarrow> real) \<Rightarrow> minmax \<times> minmax \<Rightarrow> minmax \<Rightarrow> nat \<Rightarrow>
   nat \<times> real \<Rightarrow> 'p notebook stmt" where
  "partB_tick dev predict s_x s_y W = (\<lambda>(i, t).
     exec ([set_tm i t, set_dt t, read_T1 dev i t]
           @ lstm_block predict s_x s_y W i
           @ [write_Q1 dev Qlstm i t, set_prev_time t]))"

definition partB_run ::
  "'p device \<Rightarrow> ((real \<times> real) list \<Rightarrow> real) \<Rightarrow> minmax \<times> minmax \<Rightarrow> minmax \<Rightarrow> nat \<Rightarrow>
   real list \<Rightarrow> 'p notebook stmt" where
  "partB_run dev predict s_x s_y W ticks s =
     for_loop (partB_tick dev predict s_x s_y W) (enumerate_from 0 ticks) (s\<lparr>prev_time := 0\<rparr>)"

text \<open>
  The arrays as the test cell creates them, each \<^verbatim>\<open>np.zeros(loops)\<close>, with the schedule
  \<open>sp\<close> in \<^verbatim>\<open>Tsp\<close>; the other fields are those of the state \<open>s\<close> before the cell.
\<close>

definition test_arrays :: "nat \<Rightarrow> real list \<Rightarrow> 'p notebook \<Rightarrow> 'p notebook" where
  "test_arrays loops sp s =
     s\<lparr>T1 := np_zeros loops, Qpid := np_zeros loops, Qlstm := np_zeros loops,
       tm := np_zeros loops, Tsp := sp\<rparr>"

text \<open>The heater commands of a trace, in order.\<close>

fun heater_writes :: "event list \<Rightarrow> real list" where
  "heater_writes [] = []"
| "heater_writes (HeaterWrite q # evs) = q # heater_writes evs"
| "heater_writes (ev # evs) = heater_writes evs"

fun model_calls :: "event list \<Rightarrow> (real \<times> real) list list" where
  "model_calls [] = []"
| "model_calls (ModelCall Xs # evs) = Xs # model_calls evs"
| "model_calls (ev # evs) = model_calls evs"

text \<open>The controller calls of a trace, in order, each with its five arguments.\<close>

fun pid_calls :: "event list \<Rightarrow> (real \<times> real \<times> real \<times> real \<times> real) list" where
  "pid_calls [] = []"
| "pid_calls (PidCall sp pv pv_last ie h # evs) = (sp, pv, pv_last, ie, h) # pid_calls evs"
| "pid_calls (ev # evs) = pid_calls evs"

text \<open>
  The arrays as the training cell creates them, each \<^verbatim>\<open>np.zeros(loops)\<close>, with the
  schedule \<open>sp\<close> in \<^verbatim>\<open>Tsp1\<close>.
\<close>

definition train_arrays :: "nat \<Rightarrow> real list \<Rightarrow> 'p notebook \<Rightarrow> 'p notebook" where
  "train_arrays loops sp s =
     s\<lparr>T1 := np_zeros loops, Q1 := np_zeros loops, tm := np_zeros loops, Tsp1 := sp\<rparr>"

section \<open>Predicates of the proofs and example data\<close>

text \<open>
  Two states that agree on everything but the contents of \<^verbatim>\<open>Qlstm\<close>, which has the same
  length in both.
\<close>

definition differ_in_Qlstm :: "'p notebook \<Rightarrow> 'p notebook \<Rightarrow> bool" where
  "differ_in_Qlstm s u \<longleftrightarrow> u = s\<lparr>Qlstm := Qlstm u\<rparr> \<and> length (Qlstm u) = length (Qlstm s)"

text \<open>
  The arrays of the test cell have \<open>n\<close> elements and the first \<open>W\<close> elements of
  \<^verbatim>\<open>Qlstm\<close> are still zero.
\<close>

definition arrays_ready :: "nat \<Rightarrow> nat \<Rightarrow> 'p notebook \<Rightarrow> bool" where
  "arrays_ready n W s \<longleftrightarrow>
     length (tm s) = n \<and> length (T1 s) = n \<and> length (Qlstm s) = n \<and>
     (\<forall>j. j < W \<and> j < n \<longrightarrow> Qlstm s ! j = 0)"


text \<open>
  Data for the concrete instances: a notebook in which no array has been created yet, a
  device that always reads 21 degrees and ignores the heater, and a scaler that leaves
  its argument unchanged.
\<close>

definition empty_notebook :: "unit notebook" where
  "empty_notebook =
     \<lparr>tm = [], T1 = [], Q1 = [], Qpid = [], Qlstm = [], Tsp1 = [], Tsp = [],
      ierr = 0, iae = 0, prev_time = 0, dt = 0, T1_m = [], Tsp_m = [], lab = (), trace = []\<rparr>"

definition still_air :: "unit device" where
  "still_air = \<lparr>lab_T1 = (\<lambda>t p. 21), lab_Q1 = (\<lambda>t q p. p)\<rparr>"

definition unit_scaler :: minmax where
  "unit_scaler = \<lparr>sc_scale = 1, sc_min = 0\<rparr>"

section \<open>Properties of the PID controller and of the sequence-model controller\<close>

text \<open>
  With a non-zero integral time the body never raises: the only other division is
  guarded by the test on \<open>dt\<close>. The lemma gives the four returned terms in closed form.
\<close>

lemma pid_body_returns:
  fixes kc ti td sp pv pv_last ie h :: real
  assumes ti: "ti \<noteq> 0"
  shows "pid_body kc ti td sp pv pv_last ie h =
           (let inc = kc / ti * (sp - pv) * h;
                D = - (kc * td) * dpv_of pv pv_last h;
                raw = 0 + kc * (sp - pv) + (ie + inc) + D
            in if raw < 0 \<or> raw > 100
               then Inr (max 0 (min 100 raw), kc * (sp - pv), ie + inc - inc, D)
               else Inr (raw, kc * (sp - pv), ie + inc, D))"
proof (cases "h \<ge> 1 / 10 ^ 8")
  case True
  then have "h \<noteq> 0" by auto
  with True ti show ?thesis
    unfolding pid_body_def py_div_def bind_err_def dpv_of_def Let_def
    by simp
next
  case False
  with ti show ?thesis
    unfolding pid_body_def py_div_def bind_err_def dpv_of_def Let_def
    by simp
qed

lemma tauI_nonzero: "tauI \<noteq> 0"
  by (simp add: tauI_def)





lemma lstm_input_equal_length:
  assumes "length xs = length ys"
  shows "lstm_input s_x xs ys =
           Inr (transform_rows s_x (zip ys (map (\<lambda>(a, b). a - b) (zip ys xs))))"
  using assms by (simp add: lstm_input_def np_sub_def np_vstack_T_def bind_err_def)

lemma lstm_equal_length:
  assumes "length xs = length ys"
  shows "lstm predict s_x s_y xs ys =
           Inr (np_clip (inverse_transform s_y (predict
                  (transform_rows s_x (zip ys (map (\<lambda>(a, b). a - b) (zip ys xs)))))) 0 100)"
  by (simp add: lstm_def lstm_input_equal_length [OF assms] bind_err_def)



lemma pid_returns:
  fixes sp pv pv_last ie h :: real
  shows "\<exists>op P I D. pid sp pv pv_last ie h = Inr (op, P, I, D)"
  unfolding pid_def pid_body_returns [OF tauI_nonzero] Let_def by auto




text \<open>
  Claim C5, as amended. Every call computes \<open>error = sp - pv\<close>, the proportional term
  \<open>Kc * error\<close> and the integral \<open>ierr + Kc / tauI * error * dt\<close>. When \<open>dt\<close> is at
  least \<open>1e-8\<close> the derivative term is \<open>- (Kc * tauD) * (pv - pv_last) / dt\<close>; below
  that it is zero. The call returns the raw output \<open>0 + Kc * error + integral + D\<close> and
  the updated integral whenever the raw output lies in \<open>[0, 100]\<close>.
\<close>

theorem pid_terms:
  fixes kc ti td sp pv pv_last ie h :: real
  shows "(ti \<noteq> 0 \<longrightarrow>
           (\<exists>op P I D. pid_body kc ti td sp pv pv_last ie h = Inr (op, P, I, D) \<and>
              P = kc * (sp - pv) \<and>
              D = (if h \<ge> 1 / 10 ^ 8 then - (kc * td) * (pv - pv_last) / h else 0) \<and>
              (let integral = ie + kc / ti * (sp - pv) * h;
                   raw = 0 + kc * (sp - pv) + integral + D
               in 0 \<le> raw \<and> raw \<le> 100 \<longrightarrow> op = raw \<and> I = integral))) \<and>
         (\<exists>op P I D. pid sp pv pv_last ie h = Inr (op, P, I, D) \<and>
              P = Kc * (sp - pv) \<and>
              D = (if h \<ge> 1 / 10 ^ 8 then - (Kc * tauD) * (pv - pv_last) / h else 0) \<and>
              (let integral = ie + Kc / tauI * (sp - pv) * h;
                   raw = 0 + Kc * (sp - pv) + integral + D
               in 0 \<le> raw \<and> raw \<le> 100 \<longrightarrow> op = raw \<and> I = integral))"
proof -
  have gen: "\<exists>op P I D. pid_body kc ti td sp pv pv_last ie h = Inr (op, P, I, D) \<and>
              P = kc * (sp - pv) \<and>
              D = (if h \<ge> 1 / 10 ^ 8 then - (kc * td) * (pv - pv_last) / h else 0) \<and>
              (let integral = ie + kc / ti * (sp - pv) * h;
                   raw = 0 + kc * (sp - pv) + integral + D
               in 0 \<le> raw \<and> raw \<le> 100 \<longrightarrow> op = raw \<and> I = integral)"
    if "ti \<noteq> 0" for kc ti td :: real
    unfolding pid_body_returns [OF that] Let_def dpv_of_def by auto
  show ?thesis
    using gen [of ti kc td] gen [OF tauI_nonzero, of Kc tauD] unfolding pid_def by blast
qed

text \<open>An unsaturated call with a derivative time of 2, and the same call in the notebook.\<close>

theorem pid_terms_witness:
  "(75::real) \<noteq> 0 \<and> pid_body 6 75 2 25 21 20 1 2 = Inr (491 / 25, 24, 41 / 25, - 6) \<and>
   pid 25 21 20 1 2 = Inr (641 / 25, 24, 41 / 25, 0)"
  using pid_terms [where ti = 75 and kc = 6 and td = 2 and sp = 25 and pv = 21 and pv_last = 20
      and ie = 1 and h = 2]
  by (simp add: pid_def Kc_def tauI_def tauD_def pid_body_returns dpv_of_def)

text \<open>
  Claim C5 as stated, with the derivative term of every call computed from the
  measurement rate, fails where \<open>dt\<close> is below the threshold. On the first tick of a run
  \<open>dt\<close> is zero: the call returns a derivative term of zero, while the quotient
  \<open>(pv - pv_last) / dt\<close> of the claim is a division by zero. With a derivative time of 1
  and \<open>dt = 1e-9\<close> the body returns zero where the claimed formula gives \<open>- 6e9\<close>.
\<close>

theorem pid_terms_counterexample:
  "pid 25 21 0 0 0 = Inr (24, 24, 0, 0) \<and>
   py_div (21 - 0) 0 = Inl ZeroDivisionError \<and>
   pid_body 6 75 1 25 21 20 0 (1 / 10 ^ 9) = Inr (24 + 32 / 10 ^ 11, 24, 32 / 10 ^ 11, 0) \<and>
   - (6 * 1) * (21 - 20) / (1 / 10 ^ 9) \<noteq> (0::real)"
  by (simp add: pid_def Kc_def tauI_def tauD_def pid_body_returns dpv_of_def py_div_def)

text \<open>
  Claim C6. The PID controller returns normally on every input, so no division by a
  zero \<open>dt\<close> is ever reached; and whenever \<open>dt\<close> is below \<open>1e-8\<close> the derivative term
  it returns is zero, for the notebook's tuning and for any tuning with a non-zero
  integral time.
\<close>

theorem pid_small_dt:
  fixes kc ti td sp pv pv_last ie h :: real
  shows "(\<exists>r. pid sp pv pv_last ie h = Inr r) \<and>
         (h < 1 / 10 ^ 8 \<longrightarrow>
            (\<exists>op P I. pid sp pv pv_last ie h = Inr (op, P, I, 0)) \<and>
            (ti \<noteq> 0 \<longrightarrow> (\<exists>op P I. pid_body kc ti td sp pv pv_last ie h = Inr (op, P, I, 0))))"
proof -
  have gen: "\<exists>op P I. pid_body kc ti td sp pv pv_last ie h = Inr (op, P, I, 0)"
    if "ti \<noteq> 0" "h < 1 / 10 ^ 8" for kc ti td :: real
    using that(2) unfolding pid_body_returns [OF that(1)] Let_def dpv_of_def by auto
  have "\<exists>r. pid sp pv pv_last ie h = Inr r"
    using pid_returns [of sp pv pv_last ie h] by blast
  then show ?thesis
    using gen [of ti kc td] gen [OF tauI_nonzero, of Kc tauD] unfolding pid_def by blast
qed

text \<open>The first tick of a run, where \<open>dt = 0\<close>.\<close>

theorem pid_small_dt_witness:
  "(0::real) < 1 / 10 ^ 8 \<and> (75::real) \<noteq> 0 \<and> pid 25 21 0 0 0 = Inr (24, 24, 0, 0) \<and>
   pid_body 6 75 3 25 21 0 0 0 = Inr (24, 24, 0, 0)"
  using pid_small_dt [where ti = 75 and kc = 6 and td = 3 and sp = 25 and pv = 21 and pv_last = 0
      and ie = 0 and h = 0]
  by (simp add: pid_def Kc_def tauI_def tauD_def pid_body_returns dpv_of_def)

section \<open>Properties of the set point schedules\<close>

lemma slice_bound_le: "slice_bound n k \<le> n"
  by (auto simp: slice_bound_def)

lemma slice_bound_int: "slice_bound n (int k) = min k n"
  by (simp add: slice_bound_def)

lemma length_np_fill: "length (np_fill xs a b v) = length xs"
  using slice_bound_le [of "length xs" a] slice_bound_le [of "length xs" b]
  by (simp add: np_fill_def Let_def)

lemma nth_np_fill:
  assumes "j < length xs"
  shows "np_fill xs a b v ! j =
           (if slice_bound (length xs) a \<le> j \<and> j < slice_bound (length xs) b then v else xs ! j)"
proof -
  define lo where "lo = slice_bound (length xs) a"
  define hi where "hi = slice_bound (length xs) b"
  have b: "lo \<le> length xs" "hi \<le> length xs"
    by (simp_all add: lo_def hi_def slice_bound_le)
  have eq: "np_fill xs a b v = take lo xs @ replicate (hi - lo) v @ drop (max lo hi) xs"
    by (simp add: np_fill_def Let_def lo_def hi_def)
  consider "j < lo" | "lo \<le> j" "j < hi" | "lo \<le> j" "hi \<le> j"
    by linarith
  then have "(take lo xs @ replicate (hi - lo) v @ drop (max lo hi) xs) ! j =
               (if lo \<le> j \<and> j < hi then v else xs ! j)"
  proof cases
    case 1
    with b show ?thesis by (simp add: nth_append)
  next
    case 2
    then have "j - lo < hi - lo" by linarith
    with 2 b show ?thesis by (simp add: nth_append)
  next
    case 3
    have "max lo hi + (j - (lo + (hi - lo))) = j" "\<not> j - lo < hi - lo"
      using 3 by (auto simp: max_def)
    with 3 b assms show ?thesis by (simp add: nth_append)
  qed
  then show ?thesis
    unfolding eq by (simp add: lo_def hi_def)
qed

lemma nth_np_fill_nat:
  assumes "j < length xs"
  shows "np_fill xs (int a) (int b) v ! j = (if a \<le> j \<and> j < b then v else xs ! j)"
  using assms by (auto simp: nth_np_fill slice_bound_int)

lemma randint_range: "a \<le> b \<Longrightarrow> a \<le> randint a b r \<and> randint a b r \<le> b"
proof -
  assume "a \<le> b"
  have "r mod (b - a + 1) < b - a + 1" by simp
  with \<open>a \<le> b\<close> show ?thesis unfolding randint_def by linarith
qed

lemma sp_loop_step:
  assumes "e \<le> loops"
  shows "sp_loop rng k loops e tsp =
           sp_loop rng (k + 2) loops (e + randint 240 600 (rng k))
             (np_fill tsp (int e) (int (e + randint 240 600 (rng k)))
                (real (randint 30 70 (rng (k + 1)))))"
  using assms by (subst sp_loop.simps) (simp add: Let_def del: of_nat_add)

lemma sp_loop_stop:
  assumes "\<not> e \<le> loops"
  shows "sp_loop rng k loops e tsp = (tsp, e)"
  using assms by (subst sp_loop.simps) simp

lemma sp_loop_length: "length (fst (sp_loop rng k loops e tsp)) = length tsp"
proof (induction rng k loops e tsp rule: sp_loop.induct)
  case (1 rng k loops e tsp)
  show ?case
  proof (cases "e \<le> loops")
    case True
    show ?thesis
      unfolding sp_loop_step [OF True]
      using "1.IH" [OF True refl refl refl] by (simp add: length_np_fill)
  next
    case False
    then show ?thesis by (simp add: sp_loop_stop)
  qed
qed

lemma sp_loop_end: "loops < snd (sp_loop rng k loops e tsp)"
proof (induction rng k loops e tsp rule: sp_loop.induct)
  case (1 rng k loops e tsp)
  show ?case
  proof (cases "e \<le> loops")
    case True
    show ?thesis
      unfolding sp_loop_step [OF True]
      using "1.IH" [OF True refl refl refl] .
  next
    case False
    then show ?thesis by (simp add: sp_loop_stop)
  qed
qed

lemma sp_loop_below:
  assumes "j < e" "j < length tsp"
  shows "fst (sp_loop rng k loops e tsp) ! j = tsp ! j"
  using assms
proof (induction rng k loops e tsp rule: sp_loop.induct)
  case (1 rng k loops e tsp)
  show ?case
  proof (cases "e \<le> loops")
    case True
    let ?e1 = "e + randint 240 600 (rng k)"
    let ?t1 = "np_fill tsp (int e) (int ?e1) (real (randint 30 70 (rng (k + 1))))"
    have "fst (sp_loop rng (k + 2) loops ?e1 ?t1) ! j = ?t1 ! j"
      using "1.IH" [OF True refl refl refl] "1.prems" by (simp add: length_np_fill)
    also have "?t1 ! j = tsp ! j"
      using "1.prems" by (simp add: nth_np_fill_nat del: of_nat_add)
    finally show ?thesis
      unfolding sp_loop_step [OF True] .
  next
    case False
    then show ?thesis by (simp add: sp_loop_stop)
  qed
qed

lemma sp_loop_levels:
  assumes "\<forall>j. q \<le> j \<and> j < e \<and> j < length tsp \<longrightarrow> 30 \<le> tsp ! j \<and> tsp ! j \<le> 70"
    and "length tsp \<le> loops" "q \<le> j" "j < length tsp"
  shows "30 \<le> fst (sp_loop rng k loops e tsp) ! j \<and> fst (sp_loop rng k loops e tsp) ! j \<le> 70"
  using assms
proof (induction rng k loops e tsp rule: sp_loop.induct)
  case (1 rng k loops e tsp)
  show ?case
  proof (cases "e \<le> loops")
    case True
    let ?e1 = "e + randint 240 600 (rng k)"
    let ?v = "real (randint 30 70 (rng (k + 1)))"
    let ?t1 = "np_fill tsp (int e) (int ?e1) ?v"
    have v: "30 \<le> ?v \<and> ?v \<le> 70"
      using randint_range [of 30 70 "rng (k + 1)"] by simp
    have inv: "\<forall>j. q \<le> j \<and> j < ?e1 \<and> j < length ?t1 \<longrightarrow> 30 \<le> ?t1 ! j \<and> ?t1 ! j \<le> 70"
    proof (intro allI impI)
      fix i assume i: "q \<le> i \<and> i < ?e1 \<and> i < length ?t1"
      then have il: "i < length tsp" by (simp add: length_np_fill)
      show "30 \<le> ?t1 ! i \<and> ?t1 ! i \<le> 70"
      proof (cases "e \<le> i")
        case True
        with i il v show ?thesis by (simp add: nth_np_fill_nat del: of_nat_add)
      next
        case False
        with i il "1.prems"(1) show ?thesis by (simp add: nth_np_fill_nat del: of_nat_add)
      qed
    qed
    have len: "length ?t1 \<le> loops" "j < length ?t1"
      using "1.prems" by (simp_all add: length_np_fill)
    show ?thesis
      unfolding sp_loop_step [OF True]
      using "1.IH" [OF True refl refl refl inv len(1) "1.prems"(3) len(2)] .
  next
    case False
    with "1.prems" show ?thesis by (simp add: sp_loop_stop)
  qed
qed

lemma sp_loop_last_segment:
  assumes "e \<le> loops" "loops < e + randint 240 600 (rng k)" "length tsp = loops"
  shows "sp_loop rng k loops e tsp =
           (take e tsp @ replicate (loops - e) (real (randint 30 70 (rng (k + 1)))),
            e + randint 240 600 (rng k))"
proof -
  let ?e1 = "e + randint 240 600 (rng k)"
  let ?t1 = "np_fill tsp (int e) (int ?e1) (real (randint 30 70 (rng (k + 1))))"
  have "sp_loop rng k loops e tsp = sp_loop rng (k + 2) loops ?e1 ?t1"
    using assms(1) by (rule sp_loop_step)
  also have "\<dots> = (?t1, ?e1)"
    using assms(2) by (simp add: sp_loop_stop)
  also have "?t1 = take e tsp @ replicate (loops - e) (real (randint 30 70 (rng (k + 1))))"
    using assms by (simp add: np_fill_def slice_bound_int Let_def del: of_nat_add)
  finally show ?thesis .
qed


lemma room_array: "map (\<lambda>x. x * room) (np_ones loops) = replicate loops room"
  by (simp add: np_ones_def)

lemma Tsp1_schedule_props:
  obtains tsp e where "Tsp1_schedule rng room loops = (tsp, e)" "length tsp = loops" "loops < e"
    "\<forall>j. j < 30 \<and> j < loops \<longrightarrow> tsp ! j = room"
    "\<forall>j. 30 \<le> j \<and> j < loops \<longrightarrow> 30 \<le> tsp ! j \<and> tsp ! j \<le> 70"
proof -
  let ?r = "sp_loop rng 0 loops 30 (replicate loops room)"
  have 1: "Tsp1_schedule rng room loops = (fst ?r, snd ?r)"
    by (simp add: Tsp1_schedule_def room_array)
  have 2: "length (fst ?r) = loops"
    by (simp add: sp_loop_length)
  have 3: "loops < snd ?r"
    by (rule sp_loop_end)
  have 4: "\<forall>j. j < 30 \<and> j < loops \<longrightarrow> fst ?r ! j = room"
    by (simp add: sp_loop_below)
  have 5: "\<forall>j. 30 \<le> j \<and> j < loops \<longrightarrow> 30 \<le> fst ?r ! j \<and> fst ?r ! j \<le> 70"
  proof (intro allI impI)
    fix j assume j: "30 \<le> j \<and> j < loops"
    have "\<forall>i. 30 \<le> i \<and> i < 30 \<and> i < length (replicate loops room) \<longrightarrow>
            30 \<le> replicate loops room ! i \<and> replicate loops room ! i \<le> 70"
      by simp
    from sp_loop_levels [OF this, of loops j rng 0] j
    show "30 \<le> fst ?r ! j \<and> fst ?r ! j \<le> 70" by simp
  qed
  from that [OF 1 2 3 4 5] show thesis .
qed

lemma Tsp_schedule_props:
  assumes "0 < loops"
  obtains tsp e where "Tsp_schedule rng W room loops = Inr (tsp, e)" "length tsp = loops" "loops < e"
    "\<forall>j. j < W + 15 \<and> j < loops \<longrightarrow> tsp ! j = room"
    "\<forall>j. loops - 120 \<le> j \<and> j < loops \<longrightarrow> tsp ! j = room"
    "\<forall>j. W + 15 \<le> j \<and> j < loops - 120 \<longrightarrow> 30 \<le> tsp ! j \<and> tsp ! j \<le> 70"
proof -
  let ?r = "sp_loop rng 0 loops (W + 15) (replicate loops room)"
  let ?t = "np_fill (fst ?r) (- 120) (int loops) room"
  have len: "length (fst ?r) = loops"
    by (simp add: sp_loop_length)
  have first: "fst ?r ! 0 = room"
    using assms by (simp add: sp_loop_below)
  have lo: "slice_bound loops (- 120) = loops - 120"
    by (simp add: slice_bound_def nat_diff_distrib')
  have nth: "?t ! j = (if loops - 120 \<le> j then room else fst ?r ! j)" if "j < loops" for j
    using that len by (simp add: nth_np_fill lo slice_bound_int)
  have ne: "fst ?r \<noteq> []"
    using assms len by auto
  have 1: "Tsp_schedule rng W room loops = Inr (?t, snd ?r)"
    using assms len first ne
    by (simp add: Tsp_schedule_def room_array split_beta py_get_def py_index_def bind_err_def)
  have 2: "length ?t = loops"
    by (simp add: length_np_fill len)
  have 3: "loops < snd ?r"
    by (rule sp_loop_end)
  have 4: "\<forall>j. j < W + 15 \<and> j < loops \<longrightarrow> ?t ! j = room"
    by (simp add: nth sp_loop_below)
  have 5: "\<forall>j. loops - 120 \<le> j \<and> j < loops \<longrightarrow> ?t ! j = room"
    by (simp add: nth)
  have 6: "\<forall>j. W + 15 \<le> j \<and> j < loops - 120 \<longrightarrow> 30 \<le> ?t ! j \<and> ?t ! j \<le> 70"
  proof (intro allI impI)
    fix j assume j: "W + 15 \<le> j \<and> j < loops - 120"
    have "\<forall>i. W + 15 \<le> i \<and> i < W + 15 \<and> i < length (replicate loops room) \<longrightarrow>
            30 \<le> replicate loops room ! i \<and> replicate loops room ! i \<le> 70"
      by simp
    moreover from j have jl: "j < loops" by linarith
    ultimately have "30 \<le> fst ?r ! j \<and> fst ?r ! j \<le> 70"
      using sp_loop_levels [of "W + 15" "W + 15" "replicate loops room" loops j rng 0] j by simp
    with j jl show "30 \<le> ?t ! j \<and> ?t ! j \<le> 70" by (simp add: nth)
  qed
  from that [OF 1 2 3 4 5 6] show thesis .
qed

text \<open>
  Claim C7, as amended. For every run length and every sequence of draws the schedule of
  the training cell has exactly the run length, holds the room temperature on its first
  30 ticks and a drawn level between 30 and 70 on every later tick, and the loop leaves
  \<^verbatim>\<open>end\<close> beyond the run length. For every run length of at least one tick the schedule
  of the test cell has exactly the run length, holds the room temperature on its first
  \<open>window + 15\<close> ticks and on its last 120, and a drawn level between them. In both, a
  segment whose sampled hold duration exceeds the remaining length is cut at the run
  length: the iteration fills the rest of the array and is the last one.
\<close>

theorem schedule_coverage:
  "(\<exists>tsp e. Tsp1_schedule rng room loops = (tsp, e) \<and> length tsp = loops \<and> loops < e \<and>
      (\<forall>j. j < 30 \<and> j < loops \<longrightarrow> tsp ! j = room) \<and>
      (\<forall>j. 30 \<le> j \<and> j < loops \<longrightarrow> 30 \<le> tsp ! j \<and> tsp ! j \<le> 70)) \<and>
   (0 < loops \<longrightarrow>
     (\<exists>tsp e. Tsp_schedule rng W room loops = Inr (tsp, e) \<and> length tsp = loops \<and> loops < e \<and>
        (\<forall>j. j < W + 15 \<and> j < loops \<longrightarrow> tsp ! j = room) \<and>
        (\<forall>j. loops - 120 \<le> j \<and> j < loops \<longrightarrow> tsp ! j = room) \<and>
        (\<forall>j. W + 15 \<le> j \<and> j < loops - 120 \<longrightarrow> 30 \<le> tsp ! j \<and> tsp ! j \<le> 70))) \<and>
   (\<forall>k e tsp. e \<le> loops \<and> loops < e + randint 240 600 (rng k) \<and> length tsp = loops \<longrightarrow>
      sp_loop rng k loops e tsp =
        (take e tsp @ replicate (loops - e) (real (randint 30 70 (rng (k + 1)))),
         e + randint 240 600 (rng k)))"
proof (intro conjI impI allI)
  show "\<exists>tsp e. Tsp1_schedule rng room loops = (tsp, e) \<and> length tsp = loops \<and> loops < e \<and>
      (\<forall>j. j < 30 \<and> j < loops \<longrightarrow> tsp ! j = room) \<and>
      (\<forall>j. 30 \<le> j \<and> j < loops \<longrightarrow> 30 \<le> tsp ! j \<and> tsp ! j \<le> 70)"
    using Tsp1_schedule_props [of rng room loops] by metis
next
  assume "0 < loops"
  then show "\<exists>tsp e. Tsp_schedule rng W room loops = Inr (tsp, e) \<and> length tsp = loops \<and> loops < e \<and>
        (\<forall>j. j < W + 15 \<and> j < loops \<longrightarrow> tsp ! j = room) \<and>
        (\<forall>j. loops - 120 \<le> j \<and> j < loops \<longrightarrow> tsp ! j = room) \<and>
        (\<forall>j. W + 15 \<le> j \<and> j < loops - 120 \<longrightarrow> 30 \<le> tsp ! j \<and> tsp ! j \<le> 70)"
    using Tsp_schedule_props [of loops rng W room] by metis
next
  fix k e and tsp :: "real list"
  assume "e \<le> loops \<and> loops < e + randint 240 600 (rng k) \<and> length tsp = loops"
  then show "sp_loop rng k loops e tsp =
        (take e tsp @ replicate (loops - e) (real (randint 30 70 (rng (k + 1)))),
         e + randint 240 600 (rng k))"
    by (simp add: sp_loop_last_segment)
qed

lemma Tsp1_example:
  "Tsp1_schedule (\<lambda>k. 0) 21 200 = (replicate 30 21 @ replicate 170 30, 270)"
  by (simp add: Tsp1_schedule_def room_array sp_loop_step sp_loop_stop randint_def
        np_fill_def slice_bound_def Let_def)

lemma Tsp_example:
  "Tsp_schedule (\<lambda>k. 0) 15 21 200 = Inr (replicate 30 21 @ replicate 50 30 @ replicate 120 21, 270)"
  by (simp add: Tsp_schedule_def room_array sp_loop_step sp_loop_stop randint_def
        np_fill_def slice_bound_def Let_def py_get_def py_index_def bind_err_def
        replicate_add [symmetric] nth_append)

text \<open>A run of 200 ticks, every draw at the lower end of its range.\<close>

theorem schedule_coverage_witness:
  "Tsp1_schedule (\<lambda>k. 0) 21 200 = (replicate 30 21 @ replicate 170 30, 270) \<and>
   (0::nat) < 200 \<and>
   Tsp_schedule (\<lambda>k. 0) 15 21 200 =
     Inr (replicate 30 21 @ replicate 50 30 @ replicate 120 21, 270) \<and>
   (30::nat) \<le> 200 \<and> 200 < 30 + randint 240 600 0 \<and>
   sp_loop (\<lambda>k. 0) 0 200 30 (replicate 200 21) = (replicate 30 21 @ replicate 170 30, 270)"
  using schedule_coverage [where rng = "\<lambda>k. 0" and room = 21 and loops = 200 and W = 15]
  by (simp add: Tsp1_example Tsp_example randint_def)

text \<open>
  Claim C7 as stated, for every run length, fails for the test cell at a run length of
  zero: \<^verbatim>\<open>Tsp[0]\<close> is read from an empty array and no schedule is produced.
\<close>

theorem schedule_coverage_counterexample:
  "Tsp_schedule (\<lambda>k. 0) window 21 0 = Inl IndexError"
  by (simp add: Tsp_schedule_def room_array sp_loop_stop window_def
        py_get_def py_index_def bind_err_def)

section \<open>Python indexing and the statements of the loops\<close>

lemma py_get_nat: "py_get xs (int i) = (if i < length xs then Inr (xs ! i) else Inl IndexError)"
  by (simp add: py_get_def py_index_def bind_err_def)

lemma py_set_nat: "py_set xs (int i) v = (if i < length xs then Inr (xs[i := v]) else Inl IndexError)"
  by (simp add: py_set_def py_index_def bind_err_def)

lemma py_get_pred:
  "py_get xs (int i - 1) =
     (if i = 0 then (if xs = [] then Inl IndexError else Inr (xs ! (length xs - 1)))
      else if i - 1 < length xs then Inr (xs ! (i - 1)) else Inl IndexError)"
proof (cases i)
  case 0
  then show ?thesis
    by (cases xs) (simp_all add: py_get_def py_index_def bind_err_def nat_diff_distrib')
next
  case (Suc k)
  then show ?thesis
    using py_get_nat [of xs k] by (simp add: algebra_simps)
qed

lemma slice_bound_diff: "W \<le> i \<Longrightarrow> slice_bound n (int i - int W) = min (i - W) n"
  by (simp add: slice_bound_def nat_diff_distrib')

lemma py_slice_window:
  assumes "W \<le> i" "i \<le> length xs"
  shows "py_slice xs (int i - int W) (int i) = take W (drop (i - W) xs)"
proof -
  have "i - (i - W) = W" "i - W \<le> length xs"
    using assms by simp_all
  with assms show ?thesis
    by (simp add: py_slice_def slice_bound_int slice_bound_diff Let_def min_def)
qed

lemma py_slice_update:
  assumes "W \<le> i" "i \<le> length xs"
  shows "py_slice (xs[i := v]) (int i - int W) (int i) = py_slice xs (int i - int W) (int i)"
proof -
  have "take W (drop (i - W) (xs[i := v])) = take W ((drop (i - W) xs)[W := v])"
    using assms by (simp add: drop_update_swap)
  then show ?thesis
    using assms by (simp add: py_slice_window)
qed

lemma set_tm_eq:
  "set_tm i t s = (if i < length (tm s) then (s\<lparr>tm := (tm s)[i := t]\<rparr>, None) else (s, Some IndexError))"
  by (simp add: set_tm_def assign_def py_set_nat bind_err_def)

lemma set_dt_eq: "set_dt t s = (s\<lparr>dt := t - prev_time s\<rparr>, None)"
  by (simp add: set_dt_def assign_def)

lemma read_T1_eq:
  "read_T1 dev i t s =
     (if i < length (T1 s) then (s\<lparr>T1 := (T1 s)[i := lab_T1 dev t (lab s)]\<rparr>, None)
      else (s, Some IndexError))"
  by (simp add: read_T1_def assign_def py_set_nat bind_err_def)

lemma add_iae_eq:
  "add_iae sp i s =
     (if i < length (sp s) \<and> i < length (T1 s)
      then (s\<lparr>iae := iae s + \<bar>sp s ! i - T1 s ! i\<bar>\<rparr>, None)
      else (s, Some IndexError))"
  by (simp add: add_iae_def assign_def py_get_nat bind_err_def)

lemma write_Q1_eq:
  "write_Q1 dev Q i t s =
     (if i < length (Q s)
      then (log_event (HeaterWrite (Q s ! i)) (s\<lparr>lab := lab_Q1 dev t (Q s ! i) (lab s)\<rparr>), None)
      else (s, Some IndexError))"
  by (simp add: write_Q1_def assign_def py_get_nat bind_err_def)

lemma set_prev_time_eq: "set_prev_time t s = (s\<lparr>prev_time := t\<rparr>, None)"
  by (simp add: set_prev_time_def assign_def)

lemma set_T1_m_eq: "set_T1_m W i s = (s\<lparr>T1_m := py_slice (T1 s) (int i - int W) (int i)\<rparr>, None)"
  by (simp add: set_T1_m_def assign_def)

lemma set_Tsp_m_eq: "set_Tsp_m W i s = (s\<lparr>Tsp_m := py_slice (Tsp s) (int i - int W) (int i)\<rparr>, None)"
  by (simp add: set_Tsp_m_def assign_def)

lemmas stmt_eqs = set_tm_eq set_dt_eq read_T1_eq add_iae_eq write_Q1_eq set_prev_time_eq
  set_T1_m_eq set_Tsp_m_eq

lemma partB_tick_early:
  assumes "i < W" "i < length (tm s)" "i < length (T1 s)" "i < length (Qlstm s)"
  shows "partB_tick dev predict s_x s_y W (i, t) s =
           (s\<lparr>tm := (tm s)[i := t], dt := t - prev_time s,
              T1 := (T1 s)[i := lab_T1 dev t (lab s)],
              lab := lab_Q1 dev t (Qlstm s ! i) (lab s),
              trace := trace s @ [HeaterWrite (Qlstm s ! i)],
              prev_time := t\<rparr>, None)"
  using assms by (simp add: partB_tick_def lstm_block_def stmt_eqs log_event_def)


lemma exec_append:
  "exec (cs @ ds) s = (case exec cs s of (s1, None) \<Rightarrow> exec ds s1 | (s1, Some e) \<Rightarrow> (s1, Some e))"
  by (induction cs arbitrary: s) (auto split: prod.splits option.splits)

lemma for_loop_append:
  "for_loop body (xs @ ys) s =
     (case for_loop body xs s of (s1, None) \<Rightarrow> for_loop body ys s1 | (s1, Some e) \<Rightarrow> (s1, Some e))"
  by (induction xs arbitrary: s) (auto split: prod.splits option.splits)

lemma exec_preserves:
  assumes "\<And>c s. c \<in> set cs \<Longrightarrow> P s \<Longrightarrow> P (fst (c s))" "P s"
  shows "P (fst (exec cs s))"
  using assms
proof (induction cs arbitrary: s)
  case Nil
  then show ?case by simp
next
  case (Cons c cs)
  have "P (fst (c s))"
    using Cons.prems by simp
  then show ?case
    using Cons.IH [of "fst (c s)"] Cons.prems(1)
    by (cases "c s") (auto split: option.splits)
qed

lemma for_loop_preserves:
  assumes "\<And>x s. x \<in> set xs \<Longrightarrow> P s \<Longrightarrow> P (fst (body x s))" "P s"
  shows "P (fst (for_loop body xs s))"
  using assms
proof (induction xs arbitrary: s)
  case Nil
  then show ?case by simp
next
  case (Cons x xs)
  have "P (fst (body x s))"
    using Cons.prems by simp
  then show ?case
    using Cons.IH [of "fst (body x s)"] Cons.prems(1)
    by (cases "body x s") (auto split: option.splits)
qed



section \<open>Runs that differ only in the network\<close>


lemma differ_in_QlstmI:
  assumes "length q = length r"
  shows "differ_in_Qlstm (s\<lparr>Qlstm := r\<rparr>) (s\<lparr>Qlstm := q\<rparr>)"
  using assms by (simp add: differ_in_Qlstm_def)
















section \<open>One tick in closed form\<close>

lemma py_get_0: "py_get xs 0 = (if xs = [] then Inl IndexError else Inr (xs ! 0))"
  using py_get_nat [of xs 0] by simp

lemma py_set_0: "py_set xs 0 v = (if xs = [] then Inl IndexError else Inr (xs[0 := v]))"
  using py_set_nat [of xs 0 v] by simp

lemma py_get_m1: "py_get xs (- 1) = (if xs = [] then Inl IndexError else Inr (xs ! (length xs - 1)))"
  using py_get_pred [of xs 0] by simp

lemma call_pid_Qpid_eq:
  assumes "i < length (Tsp s)" "i < length (T1 s)" "i < length (Qpid s)"
    and "pid (Tsp s ! i) (T1 s ! i) (T1 s ! (if i = 0 then length (T1 s) - 1 else i - 1))
           (ierr s) (dt s) = Inr (op, P, I, D)"
  shows "call_pid Tsp Qpid (\<lambda>q s. s\<lparr>Qpid := q\<rparr>) i s =
           (s\<lparr>trace := trace s @ [PidCall (Tsp s ! i) (T1 s ! i)
                        (T1 s ! (if i = 0 then length (T1 s) - 1 else i - 1)) (ierr s) (dt s)],
              Qpid := (Qpid s)[i := op], ierr := I\<rparr>, None)"
proof -
  have ne: "T1 s \<noteq> []"
    using assms(2) by auto
  show ?thesis
    using assms ne
    by (cases "i = 0")
       (simp_all add: call_pid_def py_get_nat py_get_pred py_set_nat py_get_0 py_set_0 py_get_m1
          log_event_def Let_def)
qed

lemma call_pid_Q1_eq:
  assumes "i < length (Tsp1 s)" "i < length (T1 s)" "i < length (Q1 s)"
    and "pid (Tsp1 s ! i) (T1 s ! i) (T1 s ! (if i = 0 then length (T1 s) - 1 else i - 1))
           (ierr s) (dt s) = Inr (op, P, I, D)"
  shows "call_pid Tsp1 Q1 (\<lambda>q s. s\<lparr>Q1 := q\<rparr>) i s =
           (s\<lparr>trace := trace s @ [PidCall (Tsp1 s ! i) (T1 s ! i)
                        (T1 s ! (if i = 0 then length (T1 s) - 1 else i - 1)) (ierr s) (dt s)],
              Q1 := (Q1 s)[i := op], ierr := I\<rparr>, None)"
proof -
  have ne: "T1 s \<noteq> []"
    using assms(2) by auto
  show ?thesis
    using assms ne
    by (cases "i = 0")
       (simp_all add: call_pid_def py_get_nat py_get_pred py_set_nat py_get_0 py_set_0 py_get_m1
          log_event_def Let_def)
qed

lemma window_rows:
  assumes "W \<le> i" "i \<le> length T" "i \<le> length S"
  shows "zip (take W (drop (i - W) S))
             (map (\<lambda>(a, b). a - b) (zip (take W (drop (i - W) S)) (take W (drop (i - W) T)))) =
         map (\<lambda>j. (S ! j, S ! j - T ! j)) [i - W..<i]"
proof (rule nth_equalityI)
  show "length (zip (take W (drop (i - W) S))
             (map (\<lambda>(a, b). a - b) (zip (take W (drop (i - W) S)) (take W (drop (i - W) T))))) =
        length (map (\<lambda>j. (S ! j, S ! j - T ! j)) [i - W..<i])"
    using assms by simp
next
  fix k
  assume "k < length (zip (take W (drop (i - W) S))
             (map (\<lambda>(a, b). a - b) (zip (take W (drop (i - W) S)) (take W (drop (i - W) T)))))"
  then have k: "k < W"
    by simp
  with assms show "zip (take W (drop (i - W) S))
             (map (\<lambda>(a, b). a - b) (zip (take W (drop (i - W) S)) (take W (drop (i - W) T)))) ! k =
         map (\<lambda>j. (S ! j, S ! j - T ! j)) [i - W..<i] ! k"
    by simp
qed

lemma lstm_block_eq:
  fixes s :: "'p notebook" and s_x :: "minmax \<times> minmax" and i W :: nat
  assumes "W \<le> i" "i \<le> length (T1 s)" "i \<le> length (Tsp s)" "i < length (Qlstm s)"
  defines "Xs \<equiv> transform_rows s_x (map (\<lambda>j. (Tsp s ! j, Tsp s ! j - T1 s ! j)) [i - W..<i])"
  shows "exec (lstm_block predict s_x s_y W i) s =
           (s\<lparr>T1_m := take W (drop (i - W) (T1 s)), Tsp_m := take W (drop (i - W) (Tsp s)),
              trace := trace s @ [ModelCall Xs],
              Qlstm := (Qlstm s)[i := np_clip (inverse_transform s_y (predict Xs)) 0 100]\<rparr>, None)"
proof -
  have len: "length (take W (drop (i - W) (T1 s))) = length (take W (drop (i - W) (Tsp s)))"
    using assms(1-3) by simp
  show ?thesis
    using assms(1-4)
    by (simp add: lstm_block_def stmt_eqs call_lstm_def py_slice_window
          lstm_input_equal_length [OF len] lstm_equal_length [OF len]
          window_rows log_event_def py_set_nat Xs_def)
qed


lemma rows_update:
  "map (\<lambda>j. (S ! j, S ! j - T[i := m] ! j)) [i - W..<i] = map (\<lambda>j. (S ! j, S ! j - T ! j)) [i - W..<i]"
  by simp

lemma take_drop_update:
  assumes "W \<le> i"
  shows "take W (drop (i - W) (T[i := m])) = take W (drop (i - W) T)"
  using assms by (simp add: drop_update_swap)

lemma partA_prefix:
  fixes s :: "'p notebook" and i W :: nat and dev :: "'p device" and t :: real
  assumes "i < length (tm s)" "i < length (T1 s)" "i < length (Tsp s)" "i < length (Qpid s)"
  defines "m \<equiv> lab_T1 dev t (lab s)"
  defines "pvl \<equiv> (T1 s)[i := m] ! (if i = 0 then length (T1 s) - 1 else i - 1)"
  assumes pid: "pid (Tsp s ! i) m pvl (ierr s) (t - prev_time s) = Inr (op, P, I, D)"
  shows "exec [set_tm i t, set_dt t, read_T1 dev i t, add_iae Tsp i,
               call_pid Tsp Qpid (\<lambda>q s. s\<lparr>Qpid := q\<rparr>) i, write_Q1 dev Qpid i t] s =
           (s\<lparr>tm := (tm s)[i := t], dt := t - prev_time s, T1 := (T1 s)[i := m],
              iae := iae s + \<bar>Tsp s ! i - m\<bar>,
              trace := trace s @ [PidCall (Tsp s ! i) m pvl (ierr s) (t - prev_time s),
                                  HeaterWrite op],
              Qpid := (Qpid s)[i := op], ierr := I, lab := lab_Q1 dev t op (lab s)\<rparr>, None)"
proof -
  define s4 where "s4 = s\<lparr>tm := (tm s)[i := t], dt := t - prev_time s, T1 := (T1 s)[i := m],
                         iae := iae s + \<bar>Tsp s ! i - m\<bar>\<rparr>"
  have f: "Tsp s4 = Tsp s" "T1 s4 = (T1 s)[i := m]" "ierr s4 = ierr s" "dt s4 = t - prev_time s"
    "Qpid s4 = Qpid s" "trace s4 = trace s" "lab s4 = lab s"
    by (simp_all add: s4_def)
  have pid4: "pid (Tsp s4 ! i) (T1 s4 ! i) (T1 s4 ! (if i = 0 then length (T1 s4) - 1 else i - 1))
                (ierr s4) (dt s4) = Inr (op, P, I, D)"
    unfolding f using pid assms(2) by (cases "i = 0") (simp_all add: pvl_def)
  have c: "call_pid Tsp Qpid (\<lambda>q s. s\<lparr>Qpid := q\<rparr>) i s4 =
             (s4\<lparr>trace := trace s @ [PidCall (Tsp s ! i) m pvl (ierr s) (t - prev_time s)],
                 Qpid := (Qpid s)[i := op], ierr := I\<rparr>, None)"
    using call_pid_Qpid_eq [of i s4 op P I D, OF _ _ _ pid4] assms(2-4)
    unfolding f by (simp add: pvl_def)
  have "exec [set_tm i t, set_dt t, read_T1 dev i t, add_iae Tsp i,
               call_pid Tsp Qpid (\<lambda>q s. s\<lparr>Qpid := q\<rparr>) i, write_Q1 dev Qpid i t] s =
        exec [call_pid Tsp Qpid (\<lambda>q s. s\<lparr>Qpid := q\<rparr>) i, write_Q1 dev Qpid i t] s4"
    using assms(1-3) by (simp add: stmt_eqs s4_def m_def)
  also have "\<dots> = (s4\<lparr>trace := trace s @ [PidCall (Tsp s ! i) m pvl (ierr s) (t - prev_time s),
                                        HeaterWrite op],
                       Qpid := (Qpid s)[i := op], ierr := I, lab := lab_Q1 dev t op (lab s)\<rparr>, None)"
    using assms(4) by (simp add: c stmt_eqs log_event_def f)
  finally show ?thesis
    by (simp add: s4_def)
qed

lemma partA_tick_late:
  fixes s :: "'p notebook" and s_x :: "minmax \<times> minmax" and i W :: nat
    and dev :: "'p device" and t :: real
  assumes "W \<le> i" "i < length (tm s)" "i < length (T1 s)" "i < length (Tsp s)"
    "i < length (Qpid s)" "i < length (Qlstm s)"
  defines "m \<equiv> lab_T1 dev t (lab s)"
  defines "pvl \<equiv> (T1 s)[i := m] ! (if i = 0 then length (T1 s) - 1 else i - 1)"
  defines "Xs \<equiv> transform_rows s_x (map (\<lambda>j. (Tsp s ! j, Tsp s ! j - T1 s ! j)) [i - W..<i])"
  assumes pid: "pid (Tsp s ! i) m pvl (ierr s) (t - prev_time s) = Inr (op, P, I, D)"
  shows "partA_tick dev predict s_x s_y W (i, t) s =
           (s\<lparr>tm := (tm s)[i := t], dt := t - prev_time s, T1 := (T1 s)[i := m],
              iae := iae s + \<bar>Tsp s ! i - m\<bar>,
              trace := trace s @ [PidCall (Tsp s ! i) m pvl (ierr s) (t - prev_time s),
                                  HeaterWrite op, ModelCall Xs],
              Qpid := (Qpid s)[i := op], ierr := I, lab := lab_Q1 dev t op (lab s),
              T1_m := take W (drop (i - W) (T1 s)), Tsp_m := take W (drop (i - W) (Tsp s)),
              Qlstm := (Qlstm s)[i := np_clip (inverse_transform s_y (predict Xs)) 0 100],
              prev_time := t\<rparr>, None)"
  using assms(1-6)
  unfolding partA_tick_def prod.case exec_append
    partA_prefix [OF assms(2-5) pid [unfolded m_def pvl_def]] m_def pvl_def Xs_def
  by (simp add: lstm_block_eq stmt_eqs rows_update take_drop_update)

lemma partA_tick_early:
  fixes s :: "'p notebook" and i W :: nat and dev :: "'p device" and t :: real
  assumes "i < W" "i < length (tm s)" "i < length (T1 s)" "i < length (Tsp s)"
    "i < length (Qpid s)"
  defines "m \<equiv> lab_T1 dev t (lab s)"
  defines "pvl \<equiv> (T1 s)[i := m] ! (if i = 0 then length (T1 s) - 1 else i - 1)"
  assumes pid: "pid (Tsp s ! i) m pvl (ierr s) (t - prev_time s) = Inr (op, P, I, D)"
  shows "partA_tick dev predict s_x s_y W (i, t) s =
           (s\<lparr>tm := (tm s)[i := t], dt := t - prev_time s, T1 := (T1 s)[i := m],
              iae := iae s + \<bar>Tsp s ! i - m\<bar>,
              trace := trace s @ [PidCall (Tsp s ! i) m pvl (ierr s) (t - prev_time s),
                                  HeaterWrite op],
              Qpid := (Qpid s)[i := op], ierr := I, lab := lab_Q1 dev t op (lab s),
              prev_time := t\<rparr>, None)"
  using assms(1)
  unfolding partA_tick_def prod.case exec_append
    partA_prefix [OF assms(2-5) pid [unfolded m_def pvl_def]] m_def pvl_def
  by (simp add: lstm_block_def stmt_eqs)


section \<open>Properties of the control loops\<close>

lemma heater_writes_append: "heater_writes (xs @ ys) = heater_writes xs @ heater_writes ys"
  by (induction xs rule: heater_writes.induct) simp_all

lemma model_calls_append: "model_calls (xs @ ys) = model_calls xs @ model_calls ys"
  by (induction xs rule: model_calls.induct) simp_all

lemma pid_calls_append: "pid_calls (xs @ ys) = pid_calls xs @ pid_calls ys"
  by (induction xs rule: pid_calls.induct) simp_all

lemma enumerate_from_Cons: "enumerate_from n (t # ts) = (n, t) # enumerate_from (Suc n) ts"
  by (simp add: enumerate_from_def upt_rec)

lemma enumerate_from_Nil: "enumerate_from n [] = []"
  by (simp add: enumerate_from_def)

lemma enumerate_from_append:
  "enumerate_from n (xs @ ys) = enumerate_from n xs @ enumerate_from (n + length xs) ys"
proof (induction xs arbitrary: n)
  case Nil
  then show ?case by (simp add: enumerate_from_Nil)
next
  case (Cons x xs)
  then show ?case by (simp add: enumerate_from_Cons)
qed

lemma partB_early_run:
  fixes s :: "'p notebook"
  assumes "n + length ts \<le> W" "n + length ts \<le> length (tm s)" "n + length ts \<le> length (T1 s)"
    "n + length ts \<le> length (Qlstm s)"
    "\<forall>j. j < W \<and> j < length (Qlstm s) \<longrightarrow> Qlstm s ! j = 0"
  shows "\<exists>s'. for_loop (partB_tick dev predict s_x s_y W) (enumerate_from n ts) s = (s', None) \<and>
           heater_writes (trace s') = heater_writes (trace s) @ replicate (length ts) 0 \<and>
           model_calls (trace s') = model_calls (trace s) \<and> Qlstm s' = Qlstm s"
  using assms
proof (induction ts arbitrary: n s)
  case Nil
  then show ?case by (simp add: enumerate_from_Nil)
next
  case (Cons t ts)
  let ?s1 = "s\<lparr>tm := (tm s)[n := t], dt := t - prev_time s,
              T1 := (T1 s)[n := lab_T1 dev t (lab s)],
              lab := lab_Q1 dev t (Qlstm s ! n) (lab s),
              trace := trace s @ [HeaterWrite (Qlstm s ! n)],
              prev_time := t\<rparr>"
  have n: "n < W" "n < length (tm s)" "n < length (T1 s)" "n < length (Qlstm s)"
    using Cons.prems by simp_all
  have tick: "partB_tick dev predict s_x s_y W (n, t) s = (?s1, None)"
    by (rule partB_tick_early [OF n])
  have zero: "Qlstm s ! n = 0"
    using Cons.prems(5) n by simp
  obtain s' where s': "for_loop (partB_tick dev predict s_x s_y W) (enumerate_from (Suc n) ts) ?s1 = (s', None)"
    "heater_writes (trace s') = heater_writes (trace ?s1) @ replicate (length ts) 0"
    "model_calls (trace s') = model_calls (trace ?s1)" "Qlstm s' = Qlstm ?s1"
    using Cons.IH [of "Suc n" ?s1] Cons.prems by auto
  show ?case
    using s' zero
    by (simp add: enumerate_from_Cons tick heater_writes_append model_calls_append
          replicate_app_Cons_same)
qed


lemma arrays_ready_test_arrays: "arrays_ready loops W (test_arrays loops sp s0)"
  by (simp add: arrays_ready_def test_arrays_def np_zeros_def)

lemma call_pid_ready:
  "arrays_ready n W s \<Longrightarrow> arrays_ready n W (fst (call_pid Tsp Qpid (\<lambda>q s. s\<lparr>Qpid := q\<rparr>) i s))"
  by (auto simp: arrays_ready_def call_pid_def log_event_def py_set_nat Let_def
        split: sum.splits prod.splits)

lemma call_lstm_ready:
  "W \<le> i \<Longrightarrow> arrays_ready n W s \<Longrightarrow> arrays_ready n W (fst (call_lstm predict s_x s_y i s))"
  by (auto simp: arrays_ready_def call_lstm_def log_event_def py_set_nat Let_def
        split: sum.splits prod.splits)

lemma partA_tick_ready:
  assumes "arrays_ready n W s"
  shows "arrays_ready n W (fst (partA_tick dev predict s_x s_y W x s))"
proof -
  obtain i t where x: "x = (i, t)"
    by (cases x)
  show ?thesis
    unfolding x partA_tick_def prod.case
  proof (rule exec_preserves [where P = "arrays_ready n W", OF _ assms])
    fix c and u :: "'a notebook"
    assume c: "c \<in> set ([set_tm i t, set_dt t, read_T1 dev i t, add_iae Tsp i,
                call_pid Tsp Qpid (\<lambda>q s. s\<lparr>Qpid := q\<rparr>) i, write_Q1 dev Qpid i t]
               @ lstm_block predict s_x s_y W i @ [set_prev_time t])"
      and u: "arrays_ready n W u"
    from c consider "c = set_tm i t" | "c = set_dt t" | "c = read_T1 dev i t" | "c = add_iae Tsp i"
      | "c = call_pid Tsp Qpid (\<lambda>q s. s\<lparr>Qpid := q\<rparr>) i" | "c = write_Q1 dev Qpid i t"
      | "c = set_prev_time t" | "W \<le> i" "c = set_T1_m W i" | "W \<le> i" "c = set_Tsp_m W i"
      | "W \<le> i" "c = call_lstm predict s_x s_y i"
      by (auto simp: lstm_block_def split: if_splits)
    then show "arrays_ready n W (fst (c u))"
    proof cases
      case 5
      with u show ?thesis by (simp add: call_pid_ready)
    next
      case 10
      with u show ?thesis by (simp add: call_lstm_ready)
    qed (use u in \<open>simp_all add: stmt_eqs arrays_ready_def log_event_def\<close>)
  qed
qed

lemma partA_run_ready:
  assumes "arrays_ready n W s"
  shows "arrays_ready n W (fst (partA_run dev predict s_x s_y W ticks s))"
  unfolding partA_run_def
proof (rule for_loop_preserves [where P = "arrays_ready n W"])
  show "arrays_ready n W (s\<lparr>ierr := 0, iae := 0, prev_time := 0\<rparr>)"
    using assms by (simp add: arrays_ready_def)
qed (rule partA_tick_ready)

text \<open>
  Claim C10. Part B starts from the arrays of the test cell, either fresh or as Part A
  left them; in both cases the first \<open>W\<close> elements of \<^verbatim>\<open>Qlstm\<close> are zero. When the
  arrays are long enough for the ticks in question, the first \<open>min W (length ticks)\<close>
  ticks of the run raise no exception, command the heater with 0 on each of them and do
  not call the network; the whole run is these ticks followed by the remaining ones.
\<close>

theorem partB_first_ticks_zero:
  fixes s s0 :: "'p notebook"
  assumes "s = test_arrays loops sp s0 \<or>
           s = fst (partA_run devA predictA s_xA s_yA W ticksA (test_arrays loops sp s0))"
    and "min W (length ticks) \<le> loops"
  shows "\<exists>s1. partB_run dev predict s_x s_y W (take W ticks) s = (s1, None) \<and>
           heater_writes (trace s1) = heater_writes (trace s) @ replicate (min W (length ticks)) 0 \<and>
           model_calls (trace s1) = model_calls (trace s) \<and>
           partB_run dev predict s_x s_y W ticks s =
             for_loop (partB_tick dev predict s_x s_y W) (enumerate_from (min W (length ticks)) (drop W ticks)) s1"
proof -
  have ready: "arrays_ready loops W s"
    using assms(1) arrays_ready_test_arrays partA_run_ready by blast
  let ?s = "s\<lparr>prev_time := 0\<rparr>"
  have len: "length (take W ticks) = min W (length ticks)"
    by (simp add: min.commute)
  have "\<exists>s1. for_loop (partB_tick dev predict s_x s_y W) (enumerate_from 0 (take W ticks)) ?s = (s1, None) \<and>
           heater_writes (trace s1) = heater_writes (trace ?s) @ replicate (length (take W ticks)) 0 \<and>
           model_calls (trace s1) = model_calls (trace ?s) \<and> Qlstm s1 = Qlstm ?s"
    using ready assms(2) unfolding arrays_ready_def
    by (intro partB_early_run) (simp_all add: min.commute)
  then obtain s1 where s1:
    "for_loop (partB_tick dev predict s_x s_y W) (enumerate_from 0 (take W ticks)) ?s = (s1, None)"
    "heater_writes (trace s1) = heater_writes (trace s) @ replicate (min W (length ticks)) 0"
    "model_calls (trace s1) = model_calls (trace s)"
    unfolding len by auto
  have "enumerate_from 0 ticks =
          enumerate_from 0 (take W ticks) @ enumerate_from (min W (length ticks)) (drop W ticks)"
    using enumerate_from_append [of 0 "take W ticks" "drop W ticks"] by (simp add: min.commute)
  then have "partB_run dev predict s_x s_y W ticks s =
               for_loop (partB_tick dev predict s_x s_y W)
                 (enumerate_from (min W (length ticks)) (drop W ticks)) s1"
    by (simp add: partB_run_def for_loop_append s1(1))
  with s1 show ?thesis
    by (auto simp: partB_run_def)
qed

text \<open>
  The sizes of the notebook: a window of 15, arrays of 2700 elements, 301 tick times.
\<close>

theorem partB_first_ticks_zero_witness:
  "min window (length (map real [0..<301])) \<le> (2700::nat) \<and>
   snd (partB_run still_air (\<lambda>Xs. 50) (unit_scaler, unit_scaler) unit_scaler window
          (take window (map real [0..<301])) (test_arrays 2700 (replicate 2700 21) empty_notebook)) = None \<and>
   heater_writes (trace (fst (partB_run still_air (\<lambda>Xs. 50) (unit_scaler, unit_scaler) unit_scaler window
          (take window (map real [0..<301])) (test_arrays 2700 (replicate 2700 21) empty_notebook)))) =
     replicate 15 0"
proof -
  have h: "min window (length (map real [0..<301])) \<le> (2700::nat)"
    by (simp add: window_def)
  from partB_first_ticks_zero [where s = "test_arrays 2700 (replicate 2700 21) empty_notebook"
      and loops = 2700 and sp = "replicate 2700 21" and ?s0.0 = empty_notebook and W = window
      and ticks = "map real [0..<301]" and dev = still_air and predict = "\<lambda>Xs. 50"
      and s_x = "(unit_scaler, unit_scaler)" and s_y = unit_scaler, OF disjI1 [OF refl] h]
  obtain s1 where
    "partB_run still_air (\<lambda>Xs. 50) (unit_scaler, unit_scaler) unit_scaler window
          (take window (map real [0..<301])) (test_arrays 2700 (replicate 2700 21) empty_notebook) = (s1, None)"
    "heater_writes (trace s1) =
       heater_writes (trace (test_arrays 2700 (replicate 2700 21) empty_notebook)) @
       replicate (min window (length (map real [0..<301]))) 0"
    by blast
  then show ?thesis
    using h by (simp add: test_arrays_def empty_notebook_def window_def)
qed








section \<open>The window of the network and the training windows\<close>

















section \<open>The first tick\<close>

lemma collect_tick_eq:
  fixes s :: "'p notebook" and i :: nat and dev :: "'p device" and t :: real
  assumes "i < length (tm s)" "i < length (T1 s)" "i < length (Tsp1 s)" "i < length (Q1 s)"
  defines "m \<equiv> lab_T1 dev t (lab s)"
  defines "pvl \<equiv> (T1 s)[i := m] ! (if i = 0 then length (T1 s) - 1 else i - 1)"
  assumes pid: "pid (Tsp1 s ! i) m pvl (ierr s) (t - prev_time s) = Inr (op, P, I, D)"
  shows "collect_tick dev (i, t) s =
           (s\<lparr>tm := (tm s)[i := t], dt := t - prev_time s, T1 := (T1 s)[i := m],
              iae := iae s + \<bar>Tsp1 s ! i - m\<bar>,
              trace := trace s @ [PidCall (Tsp1 s ! i) m pvl (ierr s) (t - prev_time s),
                                  HeaterWrite op],
              Q1 := (Q1 s)[i := op], ierr := I, lab := lab_Q1 dev t op (lab s),
              prev_time := t\<rparr>, None)"
proof -
  define s4 where "s4 = s\<lparr>tm := (tm s)[i := t], dt := t - prev_time s, T1 := (T1 s)[i := m],
                         iae := iae s + \<bar>Tsp1 s ! i - m\<bar>\<rparr>"
  have f: "Tsp1 s4 = Tsp1 s" "T1 s4 = (T1 s)[i := m]" "ierr s4 = ierr s" "dt s4 = t - prev_time s"
    "Q1 s4 = Q1 s" "trace s4 = trace s" "lab s4 = lab s"
    by (simp_all add: s4_def)
  have pid4: "pid (Tsp1 s4 ! i) (T1 s4 ! i) (T1 s4 ! (if i = 0 then length (T1 s4) - 1 else i - 1))
                (ierr s4) (dt s4) = Inr (op, P, I, D)"
    unfolding f using pid assms(2) by (cases "i = 0") (simp_all add: pvl_def)
  have c: "call_pid Tsp1 Q1 (\<lambda>q s. s\<lparr>Q1 := q\<rparr>) i s4 =
             (s4\<lparr>trace := trace s @ [PidCall (Tsp1 s ! i) m pvl (ierr s) (t - prev_time s)],
                 Q1 := (Q1 s)[i := op], ierr := I\<rparr>, None)"
    using call_pid_Q1_eq [of i s4 op P I D, OF _ _ _ pid4] assms(2-4)
    unfolding f by (simp add: pvl_def)
  have "collect_tick dev (i, t) s =
        exec [call_pid Tsp1 Q1 (\<lambda>q s. s\<lparr>Q1 := q\<rparr>) i, write_Q1 dev Q1 i t, set_prev_time t] s4"
    using assms(1-3) by (simp add: collect_tick_def stmt_eqs s4_def m_def)
  also have "\<dots> = (s4\<lparr>trace := trace s @ [PidCall (Tsp1 s ! i) m pvl (ierr s) (t - prev_time s),
                                        HeaterWrite op],
                       Q1 := (Q1 s)[i := op], ierr := I, lab := lab_Q1 dev t op (lab s),
                       prev_time := t\<rparr>, None)"
    using assms(4) by (simp add: c stmt_eqs log_event_def f)
  finally show ?thesis
    by (simp add: s4_def)
qed

lemma for_loop_single: "for_loop body [x] s = body x s"
  by (cases "body x s") (auto split: option.splits)

lemma enumerate_from_single: "enumerate_from 0 [t] = [(0, t)]"
  by (simp add: enumerate_from_def)

lemma pid_derivative_zero:
  assumes "pid sp pv pv_last ie h = Inr (op, P, I, D)"
  shows "D = 0"
  using assms unfolding pid_def pid_body_returns [OF tauI_nonzero] Let_def
  by (auto simp: tauD_def split: if_splits)

lemma zeros_last:
  assumes "2 \<le> n"
  shows "(np_zeros n)[0 := m] ! (n - 1) = 0"
  using assms by (simp add: np_zeros_def)

text \<open>
  Claim C8, what the code does instead. On the first tick of a run over arrays of at
  least two elements, freshly created, the previous measurement handed to the PID
  controller is \<^verbatim>\<open>T1[-1]\<close>, the last element of the array, which is still zero; it is not
  the first measurement, which is handed over as the current one. This holds for Part A
  and for the data collection loop. The derivative term of that call is zero all the
  same, as it is for every call at the notebook's tuning.
\<close>

theorem first_tick_previous_measurement:
  fixes s0 :: "'p notebook" and dev :: "'p device" and t :: real and n W :: nat
  assumes "2 \<le> n" "sp \<noteq> []"
  shows "pid_calls (trace (fst (partA_run dev predict s_x s_y W [t] (test_arrays n sp s0)))) =
           pid_calls (trace s0) @ [(sp ! 0, lab_T1 dev t (lab s0), 0, 0, t)] \<and>
         pid_calls (trace (fst (collect_run dev [t] (train_arrays n sp s0)))) =
           pid_calls (trace s0) @ [(sp ! 0, lab_T1 dev t (lab s0), 0, 0, t)] \<and>
         (\<exists>op P I. pid (sp ! 0) (lab_T1 dev t (lab s0)) 0 0 t = Inr (op, P, I, 0))"
proof (intro conjI)
  let ?m = "lab_T1 dev t (lab s0)"
  obtain op P I D where pid: "pid (sp ! 0) ?m 0 0 t = Inr (op, P, I, D)"
    using pid_returns by blast
  then have D: "D = 0"
    by (rule pid_derivative_zero)
  with pid show "\<exists>op P I. pid (sp ! 0) ?m 0 0 t = Inr (op, P, I, 0)"
    by blast
  have n: "0 < n" "n - 1 \<noteq> 0" "n - 1 < n" "0 < length sp"
    using assms by simp_all
  let ?a = "(test_arrays n sp s0)\<lparr>ierr := 0, iae := 0, prev_time := 0\<rparr>"
  have fa: "tm ?a = np_zeros n" "T1 ?a = np_zeros n" "Tsp ?a = sp" "Qpid ?a = np_zeros n"
    "Qlstm ?a = np_zeros n" "ierr ?a = 0" "prev_time ?a = 0" "lab ?a = lab s0" "trace ?a = trace s0"
    by (simp_all add: test_arrays_def)
  have pida: "pid (Tsp ?a ! 0) (lab_T1 dev t (lab ?a))
                ((T1 ?a)[0 := lab_T1 dev t (lab ?a)] ! (if (0::nat) = 0 then length (T1 ?a) - 1 else 0 - 1))
                (ierr ?a) (t - prev_time ?a) = Inr (op, P, I, D)"
    unfolding fa using pid n by (simp add: np_zeros_def)
  have "pid_calls (trace (fst (partA_tick dev predict s_x s_y W (0, t) ?a))) =
          pid_calls (trace s0) @ [(sp ! 0, ?m, 0, 0, t)]"
  proof (cases "W = 0")
    case True
    show ?thesis
      unfolding True
      by (subst partA_tick_late [OF _ _ _ _ _ _ pida])
         (use n in \<open>simp_all add: fa np_zeros_def pid_calls_append\<close>)
  next
    case False
    then have "0 < W" by simp
    then show ?thesis
      by (subst partA_tick_early [OF _ _ _ _ _ pida])
         (use n in \<open>simp_all add: fa np_zeros_def pid_calls_append\<close>)
  qed
  then show "pid_calls (trace (fst (partA_run dev predict s_x s_y W [t] (test_arrays n sp s0)))) =
           pid_calls (trace s0) @ [(sp ! 0, ?m, 0, 0, t)]"
    unfolding partA_run_def enumerate_from_single for_loop_single .
  let ?c = "(train_arrays n sp s0)\<lparr>ierr := 0, iae := 0, prev_time := 0\<rparr>"
  have fc: "tm ?c = np_zeros n" "T1 ?c = np_zeros n" "Tsp1 ?c = sp" "Q1 ?c = np_zeros n"
    "ierr ?c = 0" "prev_time ?c = 0" "lab ?c = lab s0" "trace ?c = trace s0"
    by (simp_all add: train_arrays_def)
  have pidc: "pid (Tsp1 ?c ! 0) (lab_T1 dev t (lab ?c))
                ((T1 ?c)[0 := lab_T1 dev t (lab ?c)] ! (if (0::nat) = 0 then length (T1 ?c) - 1 else 0 - 1))
                (ierr ?c) (t - prev_time ?c) = Inr (op, P, I, D)"
    unfolding fc using pid n by (simp add: np_zeros_def)
  have "pid_calls (trace (fst (collect_tick dev (0, t) ?c))) =
          pid_calls (trace s0) @ [(sp ! 0, ?m, 0, 0, t)]"
    by (subst collect_tick_eq [OF _ _ _ _ pidc])
       (use n in \<open>simp_all add: fc np_zeros_def pid_calls_append\<close>)
  then show "pid_calls (trace (fst (collect_run dev [t] (train_arrays n sp s0)))) =
           pid_calls (trace s0) @ [(sp ! 0, ?m, 0, 0, t)]"
    unfolding collect_run_def enumerate_from_single for_loop_single .
qed

text \<open>The first tick at 21 degrees: current measurement 21, previous measurement 0.\<close>

theorem first_tick_previous_measurement_witness:
  "(2::nat) \<le> 2700 \<and> replicate 2700 (21::real) \<noteq> [] \<and>
   pid_calls (trace (fst (partA_run still_air (\<lambda>Xs. 50) (unit_scaler, unit_scaler) unit_scaler window [0]
      (test_arrays 2700 (replicate 2700 21) empty_notebook)))) = [(21, 21, 0, 0, 0)] \<and>
   pid_calls (trace (fst (collect_run still_air [0]
      (train_arrays 2700 (replicate 2700 21) empty_notebook)))) = [(21, 21, 0, 0, 0)] \<and>
   pid 21 21 0 0 0 = Inr (0, 0, 0, 0)"
  using first_tick_previous_measurement [where n = 2700 and sp = "replicate 2700 21"
      and ?s0.0 = empty_notebook and dev = still_air and t = 0 and predict = "\<lambda>Xs. 50"
      and s_x = "(unit_scaler, unit_scaler)" and s_y = unit_scaler and W = window]
  by (simp add: empty_notebook_def still_air_def pid_def Kc_def tauI_def tauD_def
        pid_body_returns dpv_of_def)

end
